theory Spec2Isabelle
  imports Main
begin

section \<open>Data shapes of the minifier protocol\<close>

text \<open>
  The shapes of \<^verbatim>\<open>ModuleMinifierPlugin.types.ts\<close> that \<^verbatim>\<open>MessagePortMinifier.ts\<close>
  works on. A request is identified by its \<open>hash\<close>; the other fields travel with it
  unread. The interface names four fields. Its types are structural, so the object a
  caller passes may hold properties beside them: \<open>others\<close> lists these, each plain data or
  a function.
\<close>

datatype js_property = Data string | Function

record IModuleMinificationRequest =
  hash :: string
  code :: string
  nameForMap :: "string option"
  externals :: "string list option"
  others :: "(string \<times> js_property) list"

text \<open>
  The structured clone of \<^verbatim>\<open>port.postMessage\<close> copies strings and arrays of strings and
  refuses a function. A request of the four fields alone can always be cloned.
\<close>

definition cloneable :: "IModuleMinificationRequest \<Rightarrow> bool" where
  "cloneable request = list_all (\<lambda>p. snd p \<noteq> Function) (others request)"

text \<open>
  \<^verbatim>\<open>IModuleMinificationResult\<close> is the union of the error result (\<open>hash\<close>, \<open>error\<close>) and of
  the success result (\<open>hash\<close>, \<open>code\<close>, optional \<open>map\<close>). The \<^verbatim>\<open>Error\<close> object is kept as
  its message and the source map as its text: this layer never reads either.
\<close>

datatype IModuleMinificationResult =
    ErrorResult string string
  | SuccessResult string string "string option"

fun result_hash :: "IModuleMinificationResult \<Rightarrow> string" where
  "result_hash (ErrorResult h e) = h"
| "result_hash (SuccessResult h c m) = h"

text \<open>
  An \<^verbatim>\<open>IModuleMinificationCallback\<close> is a closure of the caller. The model names each
  closure by a number and records every call of it, with its argument, in the trace
  \<open>invoked\<close> of the state below. A callback is taken to return normally.
\<close>

type_synonym callback = nat

text \<open>
  What is handed to \<^verbatim>\<open>port.postMessage\<close>: the string \<^verbatim>\<open>'initialize'\<close> or a request.
\<close>

datatype outbound = OutString string | OutRequest IModuleMinificationRequest

text \<open>
  What a \<^verbatim>\<open>'message'\<close> event of the port carries: the configuration hash (a string),
  a result object, a number or \<^verbatim>\<open>false\<close>. The payload of a number is never read; it
  is kept as an integer.
\<close>

datatype inbound = InString string | InResult IModuleMinificationResult | InNumber int | InFalse

fun typeof :: "inbound \<Rightarrow> string" where
  "typeof (InString x) = ''string''"
| "typeof (InResult r) = ''object''"
| "typeof (InNumber n) = ''number''"
| "typeof InFalse = ''boolean''"

text \<open>
  The exceptions this file can raise: the \<^verbatim>\<open>TypeError\<close> of a \<^verbatim>\<open>for ... of\<close> over
  \<^verbatim>\<open>undefined\<close>, whose message names the variable that is not iterable and holds no
  data of the program; and the \<^verbatim>\<open>DataCloneError\<close> of \<^verbatim>\<open>port.postMessage\<close>.
\<close>

datatype js_error = TypeError | DataCloneError

section \<open>The port and the minifier\<close>

text \<open>
  Function objects have an identity in JavaScript: \<^verbatim>\<open>port.off('message', handler)\<close>
  removes that very closure. Every call of \<^verbatim>\<open>connect\<close> creates one listener for
  \<^verbatim>\<open>once\<close> and one \<^verbatim>\<open>handler\<close>; the model names both by the number of the call.
\<close>

datatype listener = ConfigHashOnce nat | MessageHandler nat

text \<open>
  \<^verbatim>\<open>events.once\<close> of Node.js fulfils its promise with the array of the arguments the
  event was emitted with. That array is what \<^verbatim>\<open>connect\<close> stores as \<open>configHash\<close>: the
  cast \<^verbatim>\<open>as unknown as Promise<string>\<close> changes the static type only. So the field
  holds a value of JavaScript that is a message as it arrived or an array of messages.
\<close>

datatype js_value = Value inbound | Array "inbound list"

record IMinifierConnection =
  configHash :: js_value
  handler_id :: nat

text \<open>
  The state of one \<^verbatim>\<open>MessagePortMinifier\<close> with its port: the private map
  \<^verbatim>\<open>_callbacks\<close>; of the port, the messages posted so far (oldest first), the
  \<^verbatim>\<open>'message'\<close> listeners in the order they were added, and whether \<^verbatim>\<open>close\<close> was
  called; the trace of callback calls; the number of \<^verbatim>\<open>connect\<close> calls and the
  connections their promises were fulfilled with.
\<close>

record MessagePortMinifier =
  callbacks :: "string \<rightharpoonup> callback list"
  port_posted :: "outbound list"
  port_listeners :: "listener list"
  port_closed :: bool
  invoked :: "(callback \<times> IModuleMinificationResult) list"
  connects :: nat
  connections :: "IMinifierConnection list"

text \<open>
  A statement that throws leaves the state it has reached: what is thrown is kept
  together with that state.
\<close>

type_synonym thrown = "js_error \<times> MessagePortMinifier"

fun outcome :: "thrown + MessagePortMinifier \<Rightarrow> MessagePortMinifier" where
  "outcome (Inl (e, s)) = s"
| "outcome (Inr s) = s"

text \<open>The constructor: an empty map, on a port nothing has happened on yet.\<close>

definition new_minifier :: MessagePortMinifier where
  "new_minifier =
     \<lparr>callbacks = Map.empty, port_posted = [], port_listeners = [], port_closed = False,
      invoked = [], connects = 0, connections = []\<rparr>"

text \<open>
  \<^verbatim>\<open>port.postMessage\<close> clones its argument and hands the clone to the port. When the
  argument cannot be cloned it throws, at once and in the caller, and the port gets
  nothing.
\<close>

fun can_clone :: "outbound \<Rightarrow> bool" where
  "can_clone (OutString x) = True"
| "can_clone (OutRequest r) = cloneable r"

definition enqueue :: "outbound \<Rightarrow> MessagePortMinifier \<Rightarrow> MessagePortMinifier" where
  "enqueue msg s = s\<lparr>port_posted := port_posted s @ [msg]\<rparr>"

definition postMessage :: "outbound \<Rightarrow> MessagePortMinifier \<Rightarrow> thrown + MessagePortMinifier" where
  "postMessage msg s = (if can_clone msg then Inr (enqueue msg s) else Inl (DataCloneError, s))"

definition callbacks_set ::
  "string \<Rightarrow> callback list \<Rightarrow> MessagePortMinifier \<Rightarrow> MessagePortMinifier" where
  "callbacks_set h cbs s = s\<lparr>callbacks := (callbacks s)(h \<mapsto> cbs)\<rparr>"

definition callbacks_delete :: "string \<Rightarrow> MessagePortMinifier \<Rightarrow> MessagePortMinifier" where
  "callbacks_delete h s = s\<lparr>callbacks := (callbacks s)(h := None)\<rparr>"

text \<open>
  \<^verbatim>\<open>minify\<close>: an array is truthy even when empty, so the first branch is taken exactly
  when the map has the key. \<^verbatim>\<open>push\<close> changes the array the map holds. On the second
  branch the entry is stored before \<^verbatim>\<open>postMessage\<close> is called, and nothing catches what
  that call throws.
\<close>

definition minify ::
  "IModuleMinificationRequest \<Rightarrow> callback \<Rightarrow> MessagePortMinifier \<Rightarrow> thrown + MessagePortMinifier" where
  "minify request callback s =
     (case callbacks s (hash request) of
        Some cbs \<Rightarrow> Inr (callbacks_set (hash request) (cbs @ [callback]) s)
      | None \<Rightarrow> postMessage (OutRequest request) (callbacks_set (hash request) [callback] s))"

text \<open>
  The states \<^verbatim>\<open>minify\<close> goes through, one after each statement that changes
  something: line 39 on the first branch; lines 43 and 45 on the second, where line 45
  changes nothing when it throws.
\<close>

definition minify_steps ::
  "IModuleMinificationRequest \<Rightarrow> callback \<Rightarrow> MessagePortMinifier \<Rightarrow> MessagePortMinifier list" where
  "minify_steps request callback s =
     (case callbacks s (hash request) of
        Some cbs \<Rightarrow> [callbacks_set (hash request) (cbs @ [callback]) s]
      | None \<Rightarrow>
          (let s1 = callbacks_set (hash request) [callback] s
           in case postMessage (OutRequest request) s1 of
                Inr s2 \<Rightarrow> [s1, s2]
              | Inl e \<Rightarrow> [s1]))"

definition call :: "IModuleMinificationResult \<Rightarrow> callback \<Rightarrow> MessagePortMinifier \<Rightarrow> MessagePortMinifier" where
  "call message callback s = s\<lparr>invoked := invoked s @ [(callback, message)]\<rparr>"

text \<open>
  \<^verbatim>\<open>handler\<close>: of what arrives, a result is the only thing whose \<open>typeof\<close> is
  \<^verbatim>\<open>'object'\<close>. For a result: the lookup (its \<^verbatim>\<open>!\<close> checks nothing), the delete, then
  the loop. With no entry the loop is over \<^verbatim>\<open>undefined\<close> and throws, in the state
  the delete has left.
\<close>

fun handler :: "inbound \<Rightarrow> MessagePortMinifier \<Rightarrow> thrown + MessagePortMinifier" where
  "handler (InResult message) s =
     (let callbacksForRequest = callbacks s (result_hash message);
          s1 = callbacks_delete (result_hash message) s
      in case callbacksForRequest of
           None \<Rightarrow> Inl (TypeError, s1)
         | Some cbs \<Rightarrow> Inr (fold (call message) cbs s1))"
| "handler message s = Inr s"

text \<open>
  \<^verbatim>\<open>connect\<close> up to its \<^verbatim>\<open>await\<close>: the listener of \<^verbatim>\<open>once\<close> is added, then
  \<^verbatim>\<open>'initialize'\<close> is posted. A string is always cloned, so this \<^verbatim>\<open>postMessage\<close> is
  the port taking the string (\<open>postMessage_string\<close> below).
\<close>

definition connect :: "MessagePortMinifier \<Rightarrow> MessagePortMinifier" where
  "connect s =
     enqueue (OutString ''initialize'')
       (s\<lparr>port_listeners := port_listeners s @ [ConfigHashOnce (connects s)],
          connects := Suc (connects s)\<rparr>)"

definition once_value :: "inbound \<Rightarrow> js_value" where
  "once_value message = Array [message]"

text \<open>
  The listener of \<^verbatim>\<open>once\<close> fires: it removes itself and fulfils the promise, and
  \<^verbatim>\<open>connect\<close> goes on after its \<^verbatim>\<open>await\<close>: \<^verbatim>\<open>handler\<close> is added to the port and the
  connection is returned. The rest of \<^verbatim>\<open>connect\<close> runs once the event has been
  dispatched; the dispatch works on the listeners it started with, so adding the
  handler here gives the same state.
\<close>

definition connect_resume :: "nat \<Rightarrow> inbound \<Rightarrow> MessagePortMinifier \<Rightarrow> MessagePortMinifier" where
  "connect_resume k message s =
     s\<lparr>port_listeners := remove1 (ConfigHashOnce k) (port_listeners s) @ [MessageHandler k],
       connections := connections s @ [\<lparr>configHash = once_value message, handler_id = k\<rparr>]\<rparr>"

text \<open>
  A \<^verbatim>\<open>'message'\<close> event: the listeners are called in the order they were added. An
  exception of a listener ends the dispatch. Whether the port still emits after
  \<^verbatim>\<open>close\<close> is the port's affair: here it may, so that what is proved of closed ports
  holds by the listeners alone.
\<close>

fun dispatch :: "listener list \<Rightarrow> inbound \<Rightarrow> MessagePortMinifier \<Rightarrow> thrown + MessagePortMinifier" where
  "dispatch [] message s = Inr s"
| "dispatch (ConfigHashOnce k # ls) message s = dispatch ls message (connect_resume k message s)"
| "dispatch (MessageHandler k # ls) message s =
     (case handler message s of Inl e \<Rightarrow> Inl e | Inr s' \<Rightarrow> dispatch ls message s')"

definition emit :: "inbound \<Rightarrow> MessagePortMinifier \<Rightarrow> thrown + MessagePortMinifier" where
  "emit message s = dispatch (port_listeners s) message s"

text \<open>\<^verbatim>\<open>disconnect\<close> of a connection: its handler is taken off the port, the port is closed.\<close>

definition disconnect :: "IMinifierConnection \<Rightarrow> MessagePortMinifier \<Rightarrow> MessagePortMinifier" where
  "disconnect c s =
     s\<lparr>port_listeners := remove1 (MessageHandler (handler_id c)) (port_listeners s),
       port_closed := True\<rparr>"

text \<open>
  What happens to a minifier from outside: a caller calls \<^verbatim>\<open>minify\<close>, or the port
  emits a message. A run stops at the first exception, with the state at the throw.
\<close>

datatype event = Minify IModuleMinificationRequest callback | Message inbound

fun step :: "event \<Rightarrow> MessagePortMinifier \<Rightarrow> thrown + MessagePortMinifier" where
  "step (Minify request callback) s = minify request callback s"
| "step (Message message) s = emit message s"

fun run :: "event list \<Rightarrow> MessagePortMinifier \<Rightarrow> thrown + MessagePortMinifier" where
  "run [] s = Inr s"
| "run (e # es) s = (case step e s of Inl err \<Rightarrow> Inl err | Inr s' \<Rightarrow> run es s')"

section \<open>What a run shows from outside\<close>

text \<open>The requests for the hash \<open>h\<close> among the posted messages, oldest first.\<close>

fun requests_for :: "string \<Rightarrow> outbound list \<Rightarrow> IModuleMinificationRequest list" where
  "requests_for h [] = []"
| "requests_for h (OutRequest r # ms) =
     (if hash r = h then r # requests_for h ms else requests_for h ms)"
| "requests_for h (OutString x # ms) = requests_for h ms"

text \<open>Whether an event is the arrival of a result for \<open>h\<close>, and how many of a run are.\<close>

fun answers :: "string \<Rightarrow> event \<Rightarrow> bool" where
  "answers h (Message (InResult m)) = (result_hash m = h)"
| "answers h e = False"


text \<open>The callbacks the \<^verbatim>\<open>minify\<close> calls of a run pass for \<open>h\<close>, in the order of the calls.\<close>

fun registered :: "string \<Rightarrow> event list \<Rightarrow> callback list" where
  "registered h [] = []"
| "registered h (Minify r cb # es) =
     (if hash r = h then cb # registered h es else registered h es)"
| "registered h (Message m # es) = registered h es"

text \<open>Whether an event is about \<open>h\<close> at all: a \<^verbatim>\<open>minify\<close> call or a result with that hash.\<close>

fun concerns :: "string \<Rightarrow> event \<Rightarrow> bool" where
  "concerns h (Minify r cb) = (hash r = h)"
| "concerns h (Message (InResult m)) = (result_hash m = h)"
| "concerns h (Message m) = False"

text \<open>The callbacks waiting for \<open>h\<close>: the array the map holds, or none.\<close>

definition waiting :: "MessagePortMinifier \<Rightarrow> string \<Rightarrow> callback list" where
  "waiting s h = (case callbacks s h of None \<Rightarrow> [] | Some cbs \<Rightarrow> cbs)"


section \<open>A scenario\<close>

text \<open>
  A request with nothing but a hash and code; the same request with a function put on
  it as a further property; and the minifier after the handshake \<^verbatim>\<open>'cfg-123'\<close>: the
  state of \<open>handshake_example\<close> below.
\<close>

definition example_request :: "string \<Rightarrow> string \<Rightarrow> IModuleMinificationRequest" where
  "example_request h c =
     \<lparr>hash = h, code = c, nameForMap = None, externals = None, others = []\<rparr>"

definition uncloneable_request :: "string \<Rightarrow> string \<Rightarrow> IModuleMinificationRequest" where
  "uncloneable_request h c =
     \<lparr>hash = h, code = c, nameForMap = None, externals = None,
      others = [(''onDone'', Function)]\<rparr>"

definition connected :: MessagePortMinifier where
  "connected =
     \<lparr>callbacks = Map.empty, port_posted = [OutString ''initialize''],
      port_listeners = [MessageHandler 0], port_closed = False, invoked = [], connects = 1,
      connections = [\<lparr>configHash = Array [InString ''cfg-123''], handler_id = 0\<rparr>]\<rparr>"

section \<open>The handler, the port and runs\<close>

lemma fold_call:
  "fold (call message) cbs s = s\<lparr>invoked := invoked s @ map (\<lambda>c. (c, message)) cbs\<rparr>"
  by (induction cbs arbitrary: s) (simp_all add: call_def)

lemma handler_pending:
  "callbacks s (result_hash message) = Some cbs \<Longrightarrow>
   handler (InResult message) s =
     Inr (s\<lparr>callbacks := (callbacks s)(result_hash message := None),
            invoked := invoked s @ map (\<lambda>c. (c, message)) cbs\<rparr>)"
  by (simp add: fold_call callbacks_delete_def)

lemma callbacks_delete_absent: "callbacks s h = None \<Longrightarrow> callbacks_delete h s = s"
proof -
  assume "callbacks s h = None"
  then have "(callbacks s)(h := None) = callbacks s" by (simp add: fun_upd_idem)
  then show ?thesis by (simp add: callbacks_delete_def)
qed

lemma handler_unknown:
  "callbacks s (result_hash message) = None \<Longrightarrow>
   handler (InResult message) s = Inl (TypeError, s)"
  by (simp add: callbacks_delete_absent)

lemma handler_other:
  "typeof message \<noteq> ''object'' \<Longrightarrow> handler message s = Inr s"
  by (cases message) simp_all

lemma typeof_object: "typeof message = ''object'' \<longleftrightarrow> (\<exists>r. message = InResult r)"
  by (cases message) simp_all

lemma emit_routed:
  "port_listeners s = [MessageHandler k] \<Longrightarrow> emit message s = handler message s"
  by (simp add: emit_def split: sum.splits)

lemma handler_frame:
  "handler message s = Inr t \<Longrightarrow>
   port_listeners t = port_listeners s \<and> port_posted t = port_posted s \<and>
   port_closed t = port_closed s \<and> connects t = connects s \<and> connections t = connections s"
  by (cases message) (auto simp: fold_call callbacks_delete_def Let_def split: option.splits)

lemma postMessage_string: "postMessage (OutString x) s = Inr (enqueue (OutString x) s)"
  by (simp add: postMessage_def)

lemma minify_cases:
  "minify r cb s =
     (if callbacks s (hash r) = None \<and> \<not> cloneable r
      then Inl (DataCloneError, s\<lparr>callbacks := (callbacks s)(hash r \<mapsto> [cb])\<rparr>)
      else Inr (s\<lparr>callbacks := (callbacks s)(hash r \<mapsto> waiting s (hash r) @ [cb]),
                  port_posted := (if callbacks s (hash r) = None
                                  then port_posted s @ [OutRequest r] else port_posted s)\<rparr>))"
  by (simp add: minify_def callbacks_set_def postMessage_def enqueue_def waiting_def
      split: option.splits)

lemma minify_frame:
  "minify r cb s = Inr t \<Longrightarrow>
   port_listeners t = port_listeners s \<and> port_closed t = port_closed s \<and>
   invoked t = invoked s \<and> connects t = connects s \<and> connections t = connections s"
  by (auto simp: minify_cases split: if_splits)

lemma minify_callbacks:
  "minify r cb s = Inr t \<Longrightarrow>
   callbacks t = (callbacks s)(hash r \<mapsto> waiting s (hash r) @ [cb])"
  by (auto simp: minify_cases split: if_splits)

lemma minify_posted:
  "minify r cb s = Inr t \<Longrightarrow>
   port_posted t =
     (if callbacks s (hash r) = None then port_posted s @ [OutRequest r] else port_posted s)"
  by (auto simp: minify_cases split: if_splits)

lemma outcome_minify:
  "invoked (outcome (minify r cb s)) = invoked s \<and>
   port_listeners (outcome (minify r cb s)) = port_listeners s \<and>
   port_closed (outcome (minify r cb s)) = port_closed s \<and>
   connections (outcome (minify r cb s)) = connections s \<and>
   callbacks (outcome (minify r cb s)) =
     (callbacks s)(hash r \<mapsto> waiting s (hash r) @ [cb])"
  by (simp add: minify_cases waiting_def)

lemma step_routed:
  "port_listeners s = [MessageHandler k] \<Longrightarrow> step e s = Inr t \<Longrightarrow> port_listeners t = [MessageHandler k]"
  by (cases e) (auto simp: emit_routed dest: handler_frame minify_frame)

lemma run_routed:
  "port_listeners s = [MessageHandler k] \<Longrightarrow> run es s = Inr t \<Longrightarrow> port_listeners t = [MessageHandler k]"
proof (induction es arbitrary: s)
  case Nil
  then show ?case by simp
next
  case (Cons e es)
  then show ?case by (auto split: sum.splits dest: step_routed)
qed


lemma requests_for_append:
  "requests_for h (ms @ ns) = requests_for h ms @ requests_for h ns"
  by (induction h ms rule: requests_for.induct) simp_all

lemma step_unconcerned:
  assumes "port_listeners s = [MessageHandler k]" "step e s = Inr t" "\<not> concerns h e"
  shows "callbacks t h = callbacks s h \<and>
         requests_for h (port_posted t) = requests_for h (port_posted s)"
proof (cases e)
  case (Minify r cb)
  with assms have m: "minify r cb s = Inr t" and ne: "hash r \<noteq> h" by simp_all
  show ?thesis
    using ne by (simp add: minify_callbacks[OF m] minify_posted[OF m] requests_for_append)
next
  case (Message m)
  show ?thesis
  proof (cases m)
    case (InResult res)
    with Message assms have ne: "result_hash res \<noteq> h" by simp
    from Message InResult assms have "handler (InResult res) s = Inr t"
      by (simp add: emit_routed)
    then show ?thesis using ne
      by (auto simp: Let_def fold_call callbacks_delete_def split: option.splits)
  qed (use Message assms in \<open>auto simp: emit_routed\<close>)
qed


lemma registered_append: "registered h (es1 @ es2) = registered h es1 @ registered h es2"
  by (induction h es1 rule: registered.induct) simp_all


lemma step_waiting:
  assumes "port_listeners s = [MessageHandler k]" "step e s = Inr t" "\<not> answers h e"
    "callbacks s h \<noteq> Some []"
  shows "callbacks t h \<noteq> Some [] \<and> waiting t h = waiting s h @ registered h [e]"
proof (cases "concerns h e")
  case False
  with assms(1,2) have "callbacks t h = callbacks s h" by (simp add: step_unconcerned)
  moreover from False have "registered h [e] = []"
    by (induction h e rule: concerns.induct) simp_all
  ultimately show ?thesis using assms(4) by (simp add: waiting_def)
next
  case True
  with assms(3) obtain r cb where e: "e = Minify r cb" "hash r = h"
    by (induction h e rule: concerns.induct) simp_all
  with assms(2) have "minify r cb s = Inr t" by simp
  from minify_callbacks[OF this] show ?thesis using e
    by (simp add: waiting_def)
qed

lemma run_waiting:
  assumes "port_listeners s = [MessageHandler k]" "run es s = Inr t"
    "\<forall>e \<in> set es. \<not> answers h e" "callbacks s h \<noteq> Some []"
  shows "callbacks t h \<noteq> Some [] \<and> waiting t h = waiting s h @ registered h es"
  using assms
proof (induction es arbitrary: s)
  case Nil
  then show ?case by simp
next
  case (Cons e es)
  from Cons.prems obtain s' where s': "step e s = Inr s'" "run es s' = Inr t"
    by (auto split: sum.splits)
  have r: "port_listeners s' = [MessageHandler k]"
    using Cons.prems(1) s'(1) by (rule step_routed)
  have a: "callbacks s' h \<noteq> Some [] \<and> waiting s' h = waiting s h @ registered h [e]"
    using Cons.prems(1) s'(1) _ Cons.prems(4) by (rule step_waiting) (use Cons.prems(3) in simp)
  have b: "callbacks t h \<noteq> Some [] \<and> waiting t h = waiting s' h @ registered h es"
    using r s'(2) _ conjunct1[OF a] by (rule Cons.IH) (use Cons.prems(3) in simp)
  have "registered h (e # es) = registered h [e] @ registered h es"
    using registered_append[of h "[e]" es] by simp
  with a b show ?case by simp
qed




lemma dispatch_handlers_other:
  "typeof message \<noteq> ''object'' \<Longrightarrow> dispatch (map MessageHandler ks) message s = Inr s"
  by (induction ks) (simp_all add: handler_other)

lemma emit_unrouted: "port_listeners s = [] \<Longrightarrow> emit message s = Inr s"
  by (simp add: emit_def)

lemma run_messages_unrouted: "port_listeners s = [] \<Longrightarrow> run (map Message ms) s = Inr s"
  by (induction ms) (simp_all add: emit_unrouted)

lemma run_unrouted:
  "port_listeners s = [] \<Longrightarrow> invoked (outcome (run es s)) = invoked s"
proof (induction es arbitrary: s)
  case Nil
  then show ?case by simp
next
  case (Cons e es)
  show ?case
  proof (cases e)
    case (Minify r cb)
    show ?thesis
    proof (cases "minify r cb s")
      case (Inl a)
      with outcome_minify[of r cb s] show ?thesis by (simp add: Minify)
    next
      case (Inr s')
      with outcome_minify[of r cb s] Cons.prems
      have "port_listeners s' = []" and "invoked s' = invoked s" by simp_all
      with Cons.IH[of s'] Inr show ?thesis by (simp add: Minify)
    qed
  next
    case (Message m)
    from Cons.IH[OF Cons.prems] show ?thesis
      by (simp add: Message emit_unrouted Cons.prems)
  qed
qed

lemma connect_handshake:
  "port_listeners s0 = [] \<Longrightarrow>
   connections (connect s0) = connections s0 \<and>
   port_posted (connect s0) = port_posted s0 @ [OutString ''initialize''] \<and>
   emit m0 (connect s0) =
     Inr ((connect s0)\<lparr>port_listeners := [MessageHandler (connects s0)],
            connections := connections s0 @
              [\<lparr>configHash = Array [m0], handler_id = connects s0\<rparr>]\<rparr>)"
  by (simp add: emit_def connect_def enqueue_def connect_resume_def once_value_def)

lemma handshake_example: "emit (InString ''cfg-123'') (connect new_minifier) = Inr connected"
  by (simp add: emit_def connect_def new_minifier_def enqueue_def connect_resume_def
      once_value_def connected_def)

lemmas eval_defs = emit_def minify_def callbacks_set_def callbacks_delete_def postMessage_def
  enqueue_def cloneable_def call_def example_request_def uncloneable_request_def connected_def
  Let_def

section \<open>Deduplication, order and removal\<close>



text \<open>
  C4. From a state with no entry for \<open>h\<close>, after any run in which no result for \<open>h\<close>
  arrives, the result for \<open>h\<close> calls the callbacks that \<^verbatim>\<open>minify\<close> was passed for \<open>h\<close>, each
  once per call of \<^verbatim>\<open>minify\<close>, in the order of those calls.
\<close>

theorem fifo_delivery:
  assumes "port_listeners s = [MessageHandler k]"
    and "callbacks s h = None"
    and "\<forall>e \<in> set es. \<not> answers h e"
    and "run es s = Inr t"
    and "registered h es \<noteq> []"
    and "result_hash m = h"
  shows "\<exists>u. emit (InResult m) t = Inr u \<and>
             invoked u = invoked t @ map (\<lambda>cb. (cb, m)) (registered h es)"
proof -
  have "callbacks s h \<noteq> Some []" using assms(2) by simp
  with assms(1,4,3) have w: "callbacks t h \<noteq> Some [] \<and> waiting t h = waiting s h @ registered h es"
    by (rule run_waiting)
  with assms(2,5) have ct: "callbacks t (result_hash m) = Some (registered h es)"
    by (cases "callbacks t h") (simp_all add: waiting_def assms(6))
  have lt: "port_listeners t = [MessageHandler k]"
    using assms(1,4) by (rule run_routed)
  show ?thesis
    using handler_pending[OF ct] lt by (simp only: emit_routed) simp
qed

theorem fifo_delivery_witness:
  "port_listeners connected = [MessageHandler 0] \<and>
   callbacks connected ''a'' = None \<and>
   filter (answers ''a'')
     [Minify (example_request ''a'' ''x'') 5, Message (InNumber 3),
      Minify (example_request ''a'' ''x'') 4, Minify (example_request ''b'' ''y'') 9,
      Minify (example_request ''a'' ''x'') 6] = [] \<and>
   run [Minify (example_request ''a'' ''x'') 5, Message (InNumber 3),
        Minify (example_request ''a'' ''x'') 4, Minify (example_request ''b'' ''y'') 9,
        Minify (example_request ''a'' ''x'') 6] connected =
     Inr (connected\<lparr>callbacks := [''a'' \<mapsto> [5, 4, 6], ''b'' \<mapsto> [9]],
            port_posted := [OutString ''initialize'', OutRequest (example_request ''a'' ''x''),
                            OutRequest (example_request ''b'' ''y'')]\<rparr>) \<and>
   (\<exists>u. emit (InResult (ErrorResult ''a'' ''boom''))
          (connected\<lparr>callbacks := [''a'' \<mapsto> [5, 4, 6], ''b'' \<mapsto> [9]],
            port_posted := [OutString ''initialize'', OutRequest (example_request ''a'' ''x''),
                            OutRequest (example_request ''b'' ''y'')]\<rparr>) = Inr u \<and>
        invoked u = [(5, ErrorResult ''a'' ''boom''), (4, ErrorResult ''a'' ''boom''),
                     (6, ErrorResult ''a'' ''boom'')])"
proof -
  let ?es = "[Minify (example_request ''a'' ''x'') 5, Message (InNumber 3),
        Minify (example_request ''a'' ''x'') 4, Minify (example_request ''b'' ''y'') 9,
        Minify (example_request ''a'' ''x'') 6]"
  have h1: "port_listeners connected = [MessageHandler 0]"
    by (simp add: connected_def)
  have h2: "callbacks connected ''a'' = None"
    by (simp add: connected_def)
  have h3: "\<forall>e \<in> set ?es. \<not> answers ''a'' e"
    by simp
  have h4: "run ?es connected =
     Inr (connected\<lparr>callbacks := [''a'' \<mapsto> [5, 4, 6], ''b'' \<mapsto> [9]],
            port_posted := [OutString ''initialize'', OutRequest (example_request ''a'' ''x''),
                            OutRequest (example_request ''b'' ''y'')]\<rparr>)"
    by (simp add: eval_defs fun_upd_twist)
  have h5: "registered ''a'' ?es \<noteq> []"
    by (simp add: example_request_def)
  have h6: "result_hash (ErrorResult ''a'' ''boom'') = ''a''"
    by simp
  show ?thesis
    using h1 h2 h4 fifo_delivery[OF h1 h2 h3 h4 h5 h6]
    by (simp add: connected_def example_request_def)
qed





section \<open>Messages that are not results, and results nobody waits for\<close>

text \<open>
  C7. A message that is not an object (a number, \<^verbatim>\<open>false\<close>, a string) leaves the whole
  state as it is, the map and the trace of calls with it: in \<^verbatim>\<open>handler\<close>, and when the
  port emits it to any number of installed handlers.
\<close>

theorem router_ignores_non_objects:
  assumes "typeof message \<noteq> ''object''"
    and "port_listeners s = map MessageHandler ks"
  shows "handler message s = Inr s \<and> emit message s = Inr s"
  using assms by (simp add: handler_other emit_def dispatch_handlers_other)

theorem router_ignores_non_objects_witness:
  "typeof (InNumber 42) \<noteq> ''object'' \<and> typeof InFalse \<noteq> ''object'' \<and>
   port_listeners (connected\<lparr>callbacks := [''a'' \<mapsto> [1, 2]]\<rparr>) = map MessageHandler [0] \<and>
   handler (InNumber 42) (connected\<lparr>callbacks := [''a'' \<mapsto> [1, 2]]\<rparr>) =
     Inr (connected\<lparr>callbacks := [''a'' \<mapsto> [1, 2]]\<rparr>) \<and>
   emit (InNumber 42) (connected\<lparr>callbacks := [''a'' \<mapsto> [1, 2]]\<rparr>) =
     Inr (connected\<lparr>callbacks := [''a'' \<mapsto> [1, 2]]\<rparr>) \<and>
   emit InFalse (connected\<lparr>callbacks := [''a'' \<mapsto> [1, 2]]\<rparr>) =
     Inr (connected\<lparr>callbacks := [''a'' \<mapsto> [1, 2]]\<rparr>)"
proof -
  have h1: "typeof (InNumber 42) \<noteq> ''object''" and h1': "typeof InFalse \<noteq> ''object''"
    by simp_all
  have h2: "port_listeners (connected\<lparr>callbacks := [''a'' \<mapsto> [1, 2]]\<rparr>) = map MessageHandler [0]"
    by (simp add: connected_def)
  show ?thesis
    using h1 h1' h2 router_ignores_non_objects[OF h1 h2] router_ignores_non_objects[OF h1' h2]
    by simp
qed

text \<open>
  C3, as the code has it. A result whose hash has no entry makes \<^verbatim>\<open>handler\<close> throw the
  \<^verbatim>\<open>TypeError\<close> of the loop over \<^verbatim>\<open>undefined\<close>: out of the handler, out of the event, and
  the run ends there. It is not ignored. The state at the throw is the state the result
  arrived in: no callback has been called and the map is as it was.
\<close>

theorem unknown_hash_throws:
  assumes "port_listeners s = [MessageHandler k]"
    and "callbacks s (result_hash m) = None"
  shows "handler (InResult m) s = Inl (TypeError, s) \<and>
         emit (InResult m) s = Inl (TypeError, s) \<and>
         run (Message (InResult m) # es) s = Inl (TypeError, s)"
  using assms by (simp add: emit_routed handler_unknown del: handler.simps)

theorem unknown_hash_throws_witness:
  "port_listeners (connected\<lparr>callbacks := [''a'' \<mapsto> [1, 2]]\<rparr>) = [MessageHandler 0] \<and>
   callbacks (connected\<lparr>callbacks := [''a'' \<mapsto> [1, 2]]\<rparr>)
     (result_hash (ErrorResult ''zz'' ''boom'')) = None \<and>
   emit (InResult (ErrorResult ''zz'' ''boom'')) (connected\<lparr>callbacks := [''a'' \<mapsto> [1, 2]]\<rparr>) =
     Inl (TypeError, connected\<lparr>callbacks := [''a'' \<mapsto> [1, 2]]\<rparr>) \<and>
   run [Message (InResult (ErrorResult ''zz'' ''boom'')), Minify (example_request ''a'' ''x'') 1]
     (connected\<lparr>callbacks := [''a'' \<mapsto> [1, 2]]\<rparr>) =
     Inl (TypeError, connected\<lparr>callbacks := [''a'' \<mapsto> [1, 2]]\<rparr>) \<and>
   invoked (connected\<lparr>callbacks := [''a'' \<mapsto> [1, 2]]\<rparr>) = []"
proof -
  have h1: "port_listeners (connected\<lparr>callbacks := [''a'' \<mapsto> [1, 2]]\<rparr>) = [MessageHandler 0]"
    by (simp add: connected_def)
  have h2: "callbacks (connected\<lparr>callbacks := [''a'' \<mapsto> [1, 2]]\<rparr>)
     (result_hash (ErrorResult ''zz'' ''boom'')) = None"
    by simp
  have h3: "invoked (connected\<lparr>callbacks := [''a'' \<mapsto> [1, 2]]\<rparr>) = []"
    by (simp add: connected_def)
  show ?thesis
    using h1 h2 h3 unknown_hash_throws[OF h1 h2, of "[Minify (example_request ''a'' ''x'') 1]"]
    by simp
qed

text \<open>
  C3, as it is stated, asks for an error that tells which hash was the unknown one. What
  is thrown is the same for the unknown hashes \<^verbatim>\<open>a\<close> and \<^verbatim>\<open>b\<close>.
\<close>

theorem unknown_hash_same_error:
  "emit (InResult (SuccessResult ''a'' ''minified_x'' None)) connected = Inl (TypeError, connected) \<and>
   emit (InResult (SuccessResult ''b'' ''minified_x'' None)) connected = Inl (TypeError, connected) \<and>
   result_hash (SuccessResult ''a'' ''minified_x'' None) \<noteq>
     result_hash (SuccessResult ''b'' ''minified_x'' None)"
  by (simp add: eval_defs)

section \<open>What \<^verbatim>\<open>minify\<close> does and in which order\<close>

text \<open>
  C9, as the code has it. \<^verbatim>\<open>minify\<close> ends after at most two changes of state, in a
  state it returns in or throws in. In that state no callback has been called, the
  listeners, the port's being open and the connections are as before, and its callback
  is the last of the entry of its hash. It returns exactly when the hash had an entry or
  the request can be cloned, as a request of the four fields alone always can, and it has
  then posted its request exactly when there was no entry. Otherwise what ends it is the \<^verbatim>\<open>DataCloneError\<close> of \<^verbatim>\<open>postMessage\<close>, with
  nothing posted. An error of the worker comes as a result: routed in the state
  \<^verbatim>\<open>minify\<close> ended in, it is passed to the callbacks of the entry, this one last.
\<close>

theorem minify_registers_and_posts:
  "length (minify_steps request callback s) \<le> 2 \<and>
   outcome (minify request callback s) = last (minify_steps request callback s) \<and>
   invoked (outcome (minify request callback s)) = invoked s \<and>
   port_listeners (outcome (minify request callback s)) = port_listeners s \<and>
   port_closed (outcome (minify request callback s)) = port_closed s \<and>
   connections (outcome (minify request callback s)) = connections s \<and>
   callbacks (outcome (minify request callback s)) =
     (callbacks s)(hash request \<mapsto> waiting s (hash request) @ [callback]) \<and>
   port_posted (outcome (minify request callback s)) =
     (if callbacks s (hash request) = None \<and> cloneable request
      then port_posted s @ [OutRequest request] else port_posted s) \<and>
   (minify request callback s = Inr (outcome (minify request callback s)) \<longleftrightarrow>
      callbacks s (hash request) \<noteq> None \<or> cloneable request) \<and>
   (minify request callback s = Inl (DataCloneError, outcome (minify request callback s)) \<longleftrightarrow>
      callbacks s (hash request) = None \<and> \<not> cloneable request) \<and>
   (others request = [] \<longrightarrow> cloneable request) \<and>
   handler (InResult (ErrorResult (hash request) err)) (outcome (minify request callback s)) =
     Inr ((outcome (minify request callback s))
           \<lparr>callbacks := (callbacks s)(hash request := None),
            invoked := invoked s @
              map (\<lambda>cb. (cb, ErrorResult (hash request) err))
                (waiting s (hash request) @ [callback])\<rparr>)"
proof -
  let ?u = "outcome (minify request callback s)"
  have st: "length (minify_steps request callback s) \<le> 2 \<and>
            ?u = last (minify_steps request callback s)"
    by (simp add: minify_steps_def minify_def postMessage_def Let_def split: option.splits)
  have fr: "invoked ?u = invoked s \<and> port_listeners ?u = port_listeners s \<and>
            port_closed ?u = port_closed s \<and> connections ?u = connections s \<and>
            callbacks ?u = (callbacks s)(hash request \<mapsto> waiting s (hash request) @ [callback])"
    by (rule outcome_minify)
  have p: "port_posted ?u =
     (if callbacks s (hash request) = None \<and> cloneable request
      then port_posted s @ [OutRequest request] else port_posted s)"
    by (simp add: minify_cases)
  have r: "(minify request callback s = Inr ?u \<longleftrightarrow>
              callbacks s (hash request) \<noteq> None \<or> cloneable request) \<and>
           (minify request callback s = Inl (DataCloneError, ?u) \<longleftrightarrow>
              callbacks s (hash request) = None \<and> \<not> cloneable request)"
    by (simp add: minify_cases)
  have "callbacks ?u (result_hash (ErrorResult (hash request) err)) =
          Some (waiting s (hash request) @ [callback])"
    using fr by simp
  from handler_pending[OF this]
  have h: "handler (InResult (ErrorResult (hash request) err)) ?u =
     Inr (?u\<lparr>callbacks := (callbacks s)(hash request := None),
            invoked := invoked s @
              map (\<lambda>cb. (cb, ErrorResult (hash request) err))
                (waiting s (hash request) @ [callback])\<rparr>)"
    using fr by (simp del: handler.simps)
  have d: "others request = [] \<longrightarrow> cloneable request"
    by (simp add: cloneable_def)
  show ?thesis
    using st fr p r d h by (simp del: handler.simps)
qed

theorem minify_registers_and_posts_witness:
  "cloneable (example_request ''a'' ''x'') \<and>
   minify (example_request ''a'' ''x'') 1 connected =
     Inr (connected\<lparr>callbacks := [''a'' \<mapsto> [1]],
            port_posted := [OutString ''initialize'', OutRequest (example_request ''a'' ''x'')]\<rparr>) \<and>
   outcome (minify (example_request ''a'' ''x'') 1 connected) =
     connected\<lparr>callbacks := [''a'' \<mapsto> [1]],
            port_posted := [OutString ''initialize'', OutRequest (example_request ''a'' ''x'')]\<rparr> \<and>
   invoked (outcome (minify (example_request ''a'' ''x'') 1 connected)) = invoked connected"
proof -
  have h: "cloneable (example_request ''a'' ''x'')"
    by (simp add: cloneable_def example_request_def)
  have e: "minify (example_request ''a'' ''x'') 1 connected =
     Inr (connected\<lparr>callbacks := [''a'' \<mapsto> [1]],
            port_posted := [OutString ''initialize'', OutRequest (example_request ''a'' ''x'')]\<rparr>)"
    by (simp add: eval_defs)
  show ?thesis
    using h e minify_registers_and_posts[of "example_request ''a'' ''x''" 1 connected]
    by simp
qed

text \<open>
  C9, as it is stated, has \<^verbatim>\<open>minify\<close> never throw. On a first request that holds a
  function, \<^verbatim>\<open>postMessage\<close> throws out of \<^verbatim>\<open>minify\<close>, after the entry has been stored.
\<close>

theorem minify_throws_DataCloneError:
  "minify (uncloneable_request ''a'' ''x'') 1 connected =
     Inl (DataCloneError, connected\<lparr>callbacks := [''a'' \<mapsto> [1]]\<rparr>) \<and>
   step (Minify (uncloneable_request ''a'' ''x'') 1) connected =
     Inl (DataCloneError, connected\<lparr>callbacks := [''a'' \<mapsto> [1]]\<rparr>)"
  by (simp add: eval_defs)

text \<open>
  C10. \<^verbatim>\<open>minify\<close> ends in the last of its states. In none of them has a callback been
  called, and in each of them either nothing has been posted yet or the request has been
  posted and the map holds the entry. On the first request for a hash the entry is
  stored in the first state, where nothing is posted yet, and \<^verbatim>\<open>postMessage\<close> is called
  from there: the state it gives, if it gives one, is the second and last.
\<close>

theorem entry_before_post:
  "outcome (minify request callback s) = last (minify_steps request callback s) \<and>
   (\<forall>t \<in> set (minify_steps request callback s).
      invoked t = invoked s \<and>
      (port_posted t = port_posted s \<or>
       port_posted t = port_posted s @ [OutRequest request] \<and>
       callbacks t (hash request) = Some [callback])) \<and>
   (callbacks s (hash request) = None \<longrightarrow>
      (\<exists>s1. callbacks s1 (hash request) = Some [callback] \<and>
            port_posted s1 = port_posted s \<and>
            minify request callback s = postMessage (OutRequest request) s1 \<and>
            minify_steps request callback s =
              (case postMessage (OutRequest request) s1 of
                 Inr s2 \<Rightarrow> [s1, s2] | Inl e \<Rightarrow> [s1]) \<and>
            (cloneable request \<longrightarrow>
               minify_steps request callback s = [s1, enqueue (OutRequest request) s1] \<and>
               minify request callback s = Inr (enqueue (OutRequest request) s1))))"
  by (simp add: minify_steps_def minify_def callbacks_set_def postMessage_def enqueue_def Let_def
      split: option.splits)

theorem entry_before_post_witness:
  "callbacks connected (hash (example_request ''a'' ''x'')) = None \<and>
   cloneable (example_request ''a'' ''x'') \<and>
   minify_steps (example_request ''a'' ''x'') 1 connected =
     [connected\<lparr>callbacks := [''a'' \<mapsto> [1]]\<rparr>,
      connected\<lparr>callbacks := [''a'' \<mapsto> [1]],
                port_posted := [OutString ''initialize'', OutRequest (example_request ''a'' ''x'')]\<rparr>] \<and>
   outcome (minify (example_request ''a'' ''x'') 1 connected) =
     last (minify_steps (example_request ''a'' ''x'') 1 connected) \<and>
   (\<exists>s1. callbacks s1 (hash (example_request ''a'' ''x'')) = Some [1] \<and>
         port_posted s1 = port_posted connected \<and>
         minify_steps (example_request ''a'' ''x'') 1 connected =
           [s1, enqueue (OutRequest (example_request ''a'' ''x'')) s1] \<and>
         minify (example_request ''a'' ''x'') 1 connected =
           Inr (enqueue (OutRequest (example_request ''a'' ''x'')) s1))"
proof -
  have h: "callbacks connected (hash (example_request ''a'' ''x'')) = None"
    by (simp add: connected_def)
  have c: "cloneable (example_request ''a'' ''x'')"
    by (simp add: cloneable_def example_request_def)
  have e: "minify_steps (example_request ''a'' ''x'') 1 connected =
     [connected\<lparr>callbacks := [''a'' \<mapsto> [1]]\<rparr>,
      connected\<lparr>callbacks := [''a'' \<mapsto> [1]],
                port_posted := [OutString ''initialize'', OutRequest (example_request ''a'' ''x'')]\<rparr>]"
    by (simp add: minify_steps_def eval_defs)
  show ?thesis
    using h c e entry_before_post[of "example_request ''a'' ''x''" 1 connected]
    by blast
qed

section \<open>Connecting and disconnecting\<close>

text \<open>
  C2, at the handshake \<^verbatim>\<open>'cfg-123'\<close> on a new minifier. \<^verbatim>\<open>connect\<close> posts \<^verbatim>\<open>'initialize'\<close>
  and no connection exists before the message arrives; the message then gives the
  connection. Its \<open>configHash\<close> is what \<^verbatim>\<open>events.once\<close> fulfilled the promise with, the
  array holding the message, and not the string that arrived.
\<close>

theorem connect_resolves_with_array:
  "connections (connect new_minifier) = [] \<and>
   port_posted (connect new_minifier) = [OutString ''initialize''] \<and>
   emit (InString ''cfg-123'') (connect new_minifier) = Inr connected \<and>
   map configHash (connections connected) = [Array [InString ''cfg-123'']] \<and>
   Array [InString ''cfg-123''] \<noteq> Value (InString ''cfg-123'')"
  using handshake_example
  by (simp add: connect_def new_minifier_def enqueue_def connected_def)

text \<open>
  C8. Nobody listens on the port; \<^verbatim>\<open>connect\<close> is called and the handshake arrives, which
  gives the connection \<open>c\<close>; then any run without an exception. After \<^verbatim>\<open>disconnect\<close> of \<open>c\<close>
  the port has no listener and is closed, and the map and the trace of calls are as
  before. From then on messages change nothing at all, and no run of messages and
  \<^verbatim>\<open>minify\<close> calls makes a call of a callback, however that run ends: those that
  waited are never called.
\<close>

theorem disconnect_stops_routing:
  assumes "port_listeners s0 = []"
    and "emit m0 (connect s0) = Inr s1"
    and "run es s1 = Inr s"
    and "c = last (connections s1)"
  shows "port_listeners (disconnect c s) = [] \<and> port_closed (disconnect c s) \<and>
         callbacks (disconnect c s) = callbacks s \<and> invoked (disconnect c s) = invoked s \<and>
         (\<forall>ms. run (map Message ms) (disconnect c s) = Inr (disconnect c s)) \<and>
         (\<forall>es'. invoked (outcome (run es' (disconnect c s))) = invoked s)"
proof -
  from connect_handshake[OF assms(1), of m0] assms(2)
  have l1: "port_listeners s1 = [MessageHandler (connects s0)]"
    and c1: "connections s1 = connections s0 @
              [\<lparr>configHash = Array [m0], handler_id = connects s0\<rparr>]"
    by auto
  have c: "handler_id c = connects s0"
    using assms(4) c1 by simp
  have ls: "port_listeners s = [MessageHandler (connects s0)]"
    using l1 assms(3) by (rule run_routed)
  have d: "port_listeners (disconnect c s) = []"
    using ls c by (simp add: disconnect_def)
  have f: "port_closed (disconnect c s) \<and> callbacks (disconnect c s) = callbacks s \<and>
           invoked (disconnect c s) = invoked s"
    by (simp add: disconnect_def)
  have m: "\<forall>ms. run (map Message ms) (disconnect c s) = Inr (disconnect c s)"
    using d by (simp add: run_messages_unrouted)
  have "\<forall>es'. invoked (outcome (run es' (disconnect c s))) = invoked s"
    using run_unrouted[OF d] f by simp
  with d f m show ?thesis by blast
qed

theorem disconnect_stops_routing_witness:
  "port_listeners new_minifier = [] \<and>
   emit (InString ''cfg-123'') (connect new_minifier) = Inr connected \<and>
   run [Minify (example_request ''a'' ''x'') 1, Minify (example_request ''a'' ''x-ignored'') 2]
       connected =
     Inr (connected\<lparr>callbacks := [''a'' \<mapsto> [1, 2]],
            port_posted := [OutString ''initialize'', OutRequest (example_request ''a'' ''x'')]\<rparr>) \<and>
   disconnect (last (connections connected))
     (connected\<lparr>callbacks := [''a'' \<mapsto> [1, 2]],
            port_posted := [OutString ''initialize'', OutRequest (example_request ''a'' ''x'')]\<rparr>) =
     connected\<lparr>callbacks := [''a'' \<mapsto> [1, 2]],
            port_posted := [OutString ''initialize'', OutRequest (example_request ''a'' ''x'')],
            port_listeners := [], port_closed := True\<rparr> \<and>
   (\<exists>t. run [Message (InResult (SuccessResult ''a'' ''minified_x'' None))]
          (connected\<lparr>callbacks := [''a'' \<mapsto> [1, 2]],
            port_posted := [OutString ''initialize'', OutRequest (example_request ''a'' ''x'')],
            port_listeners := [], port_closed := True\<rparr>) = Inr t \<and>
        invoked t = [] \<and> callbacks t ''a'' = Some [1, 2])"
proof -
  let ?s = "connected\<lparr>callbacks := [''a'' \<mapsto> [1, 2]],
            port_posted := [OutString ''initialize'', OutRequest (example_request ''a'' ''x'')]\<rparr>"
  have h1: "port_listeners new_minifier = []"
    by (simp add: new_minifier_def)
  have h2: "emit (InString ''cfg-123'') (connect new_minifier) = Inr connected"
    by (rule handshake_example)
  have h3: "run [Minify (example_request ''a'' ''x'') 1,
                 Minify (example_request ''a'' ''x-ignored'') 2] connected = Inr ?s"
    by (simp add: eval_defs)
  have h4: "last (connections connected) = last (connections connected)"
    by (rule refl)
  have d: "disconnect (last (connections connected)) ?s =
             ?s\<lparr>port_listeners := [], port_closed := True\<rparr>"
    by (simp add: disconnect_def connected_def)
  from disconnect_stops_routing[OF h1 h2 h3 h4]
  have "run (map Message [InResult (SuccessResult ''a'' ''minified_x'' None)])
          (disconnect (last (connections connected)) ?s) =
        Inr (disconnect (last (connections connected)) ?s)"
    by blast
  then show ?thesis
    using h1 h2 h3 d by (simp add: connected_def)
qed

end
